theory Spec2Isabelle
  imports Main
begin

unbundle bit_operations_syntax

section \<open>The workspace auto-build script (auto\_build.py)\<close>

text \<open>
  The script is a straight-line orchestration of file checks, one configuration read and
  five subprocess invocations. Everything it observes from outside (the files of the
  workspace directory, the parsed configuration, what each subprocess does) is the
  \<open>world\<close>; everything it does (log lines, subprocess invocations, the chmod, opening the
  configuration file) is appended to a trace. Python exceptions are values of \<open>exn\<close>, so
  \<open>sys.exit\<close>, \<open>CalledProcessError\<close> and \<open>KeyboardInterrupt\<close> are branches of the model.
\<close>

subsection \<open>Values produced by \<open>yaml.safe_load\<close>\<close>

text \<open>
  The Python objects \<open>yaml.safe_load\<close> can return, as far as the script tells them apart:
  \<open>None\<close>, booleans, integers, strings, lists and dicts (a dict as the list of its items;
  a Python dict has each key once). Floats and dates behave here as integers do: they have
  neither \<open>.get\<close> nor \<open>len\<close> and are no valid subprocess argument.
\<close>

datatype yaml =
    YNull
  | YBool bool
  | YInt int
  | YStr string
  | YList "yaml list"
  | YMap "(yaml \<times> yaml) list"

datatype exn =
    SystemExit int
  | KeyboardInterrupt
  | CalledProcessError int
  | YAMLError
  | AttributeError
  | TypeError
  | OSError

text \<open>\<open>except subprocess.CalledProcessError\<close> and \<open>except Exception\<close>: which exceptions
  each clause catches. \<open>SystemExit\<close> and \<open>KeyboardInterrupt\<close> derive from
  \<open>BaseException\<close> only.\<close>

fun is_CalledProcessError :: "exn \<Rightarrow> bool" where
  "is_CalledProcessError (CalledProcessError c) = True"
| "is_CalledProcessError e = False"

fun is_Exception :: "exn \<Rightarrow> bool" where
  "is_Exception (SystemExit c) = False"
| "is_Exception KeyboardInterrupt = False"
| "is_Exception e = True"

fun is_YAMLError :: "exn \<Rightarrow> bool" where
  "is_YAMLError YAMLError = True"
| "is_YAMLError e = False"

text \<open>\<open>len(x)\<close>: defined on strings, lists and dicts, \<open>TypeError\<close> on the rest.\<close>

fun py_len :: "yaml \<Rightarrow> exn + nat" where
  "py_len (YStr s) = Inr (length s)"
| "py_len (YList xs) = Inr (length xs)"
| "py_len (YMap m) = Inr (length m)"
| "py_len v = Inl TypeError"

text \<open>Truth value of an object, as \<open>not official_packages\<close> tests it.\<close>

fun py_truthy :: "yaml \<Rightarrow> bool" where
  "py_truthy YNull = False"
| "py_truthy (YBool b) = b"
| "py_truthy (YInt i) = (i \<noteq> 0)"
| "py_truthy (YStr s) = (s \<noteq> [])"
| "py_truthy (YList xs) = (xs \<noteq> [])"
| "py_truthy (YMap m) = (m \<noteq> [])"

text \<open>\<open>config.get(key, default)\<close>: only a dict has the method.\<close>

fun py_get :: "yaml \<Rightarrow> yaml \<Rightarrow> yaml \<Rightarrow> exn + yaml" where
  "py_get (YMap m) k d = Inr (case map_of m k of None \<Rightarrow> d | Some v \<Rightarrow> v)"
| "py_get c k d = Inl AttributeError"

fun is_str :: "yaml \<Rightarrow> bool" where
  "is_str (YStr s) = True"
| "is_str v = False"

fun str_of :: "yaml \<Rightarrow> string" where
  "str_of (YStr s) = s"
| "str_of v = []"

subsection \<open>The world and the trace\<close>

datatype level = INFO | WARNING | ERROR

text \<open>What the script does to the outside. A log line carries its level and its format
  string (interpolated values are not rendered). \<open>Run argv cwd\<close> is one call of
  \<open>subprocess.run\<close>; \<open>Chmod\<close> is the call on prepare.sh; \<open>OpenConfig\<close> is the
  \<open>open\<close> of ros-config.yml.\<close>

datatype event =
    Log level string
  | Run "string list" "string option"
  | Chmod int
  | OpenConfig

text \<open>What a call of \<open>subprocess.run(..., check=True)\<close> can do: the child exits with a
  return code (nonzero raises \<open>CalledProcessError\<close>), the call is interrupted from the
  keyboard, or the child cannot be started (\<open>OSError\<close>, e.g. no \<open>sudo\<close> on the path).\<close>

datatype proc_result = Exited int | Interrupted | NotStarted

text \<open>ros-config.yml: absent, present but \<open>open\<close> fails, present but \<open>safe_load\<close> raises
  \<open>YAMLError\<close>, or present and parsed to an object.\<close>

datatype config_file = Missing | Unreadable | Malformed | Parsed yaml

record world =
  args_workspace :: "string option"
  getcwd :: string
  prepare_sh :: "int option"
  env_file :: bool
  ros_config :: config_file
  run_proc :: "string list \<Rightarrow> proc_result"

text \<open>\<open>prepare_sh\<close> is \<open>st_mode\<close> of prepare.sh when the file exists. \<open>run_proc\<close> gives the
  outcome of a command by its argument vector: no command is invoked twice in one run, so
  this describes every run.\<close>

record state =
  prepare_mode :: "int option"
  trace :: "event list"

type_synonym 'a comp = "state \<Rightarrow> (exn + 'a) \<times> state"

definition ret :: "'a \<Rightarrow> 'a comp" where
  "ret x s = (Inr x, s)"

definition raise :: "exn \<Rightarrow> 'a comp" where
  "raise e s = (Inl e, s)"

definition and_then :: "'a comp \<Rightarrow> ('a \<Rightarrow> 'b comp) \<Rightarrow> 'b comp" where
  "and_then m k s = (case m s of (Inl e, s') \<Rightarrow> (Inl e, s') | (Inr x, s') \<Rightarrow> k x s')"

definition then_do :: "'a comp \<Rightarrow> 'b comp \<Rightarrow> 'b comp" where
  "then_do m k = and_then m (\<lambda>_. k)"

text \<open>\<open>try: m except C as e: h e\<close>, where \<open>catches\<close> says which exceptions \<open>C\<close> matches.\<close>

definition try_except :: "'a comp \<Rightarrow> (exn \<Rightarrow> bool) \<Rightarrow> (exn \<Rightarrow> 'a comp) \<Rightarrow> 'a comp" where
  "try_except m catches h s =
     (case m s of
        (Inl e, s') \<Rightarrow> if catches e then h e s' else (Inl e, s')
      | (Inr x, s') \<Rightarrow> (Inr x, s'))"

definition lift :: "exn + 'a \<Rightarrow> 'a comp" where
  "lift r s = (r, s)"

definition emit :: "event \<Rightarrow> unit comp" where
  "emit ev s = (Inr (), s\<lparr>trace := trace s @ [ev]\<rparr>)"

definition logger :: "level \<Rightarrow> string \<Rightarrow> unit comp" where
  "logger l msg = emit (Log l msg)"

text \<open>\<open>subprocess.run(argv, check=True, cwd=cwd)\<close>.\<close>

definition subprocess_run :: "world \<Rightarrow> string list \<Rightarrow> string option \<Rightarrow> unit comp" where
  "subprocess_run w argv cwd =
     then_do (emit (Run argv cwd))
       (case run_proc w argv of
          Exited c \<Rightarrow> if c = 0 then ret () else raise (CalledProcessError c)
        | Interrupted \<Rightarrow> raise KeyboardInterrupt
        | NotStarted \<Rightarrow> raise OSError)"

text \<open>\<open>Path.chmod(mode)\<close> replaces the permission bits (the low twelve) and keeps the
  file-type bits of \<open>st_mode\<close>.\<close>

definition chmod :: "int \<Rightarrow> int \<Rightarrow> int" where
  "chmod st_mode mode = (st_mode AND NOT 4095) OR (mode AND 4095)"

subsection \<open>ROSWorkspaceManager\<close>

text \<open>\<open>__init__\<close>: the workspace directory is the flag's value when given and non-empty,
  else the current directory. The files of the world are those of that directory.\<close>

definition workspace_dir :: "world \<Rightarrow> string" where
  "workspace_dir w =
     (case args_workspace w of
        None \<Rightarrow> getcwd w
      | Some d \<Rightarrow> if d = [] then getcwd w else d)"

text \<open>\<open>0o111 = 73\<close>, \<open>0o755 = 493\<close>.\<close>

definition check_environment :: "world \<Rightarrow> bool comp" where
  "check_environment w s =
     (case prepare_mode s of
        None \<Rightarrow>
          then_do
            (logger ERROR ''prepare.sh not found! This script is required for environment setup.'')
            (ret False) s
      | Some m \<Rightarrow>
          then_do
            (if m AND 73 = 0
             then then_do (logger INFO ''Making prepare.sh executable...'')
                    (then_do (emit (Chmod 493))
                       (\<lambda>s'. (Inr (), s'\<lparr>prepare_mode := Some (chmod m 493)\<rparr>)))
             else ret ())
            (then_do
              (if \<not> env_file w
               then then_do (logger WARNING ''.env file not found!'')
                      (then_do
                         (logger INFO ''Please copy .templates/example.env to .env and configure it.'')
                         (logger INFO ''Using default environment from prepare.sh...''))
               else logger INFO ''Found .env file for environment configuration'')
              (ret True)) s)"

definition official_packages_key :: yaml where
  "official_packages_key = YStr ''official-packages''"

text \<open>The body of the \<open>try\<close> block of \<open>read_packages_config\<close>.\<close>

definition read_packages_config_body :: "world \<Rightarrow> yaml comp" where
  "read_packages_config_body w =
     then_do (emit OpenConfig)
       (and_then
          (case ros_config w of
             Missing \<Rightarrow> raise OSError
           | Unreadable \<Rightarrow> raise OSError
           | Malformed \<Rightarrow> raise YAMLError
           | Parsed config \<Rightarrow> ret config)
          (\<lambda>config.
             and_then (lift (py_get config official_packages_key (YList [])))
               (\<lambda>official_packages.
                  and_then (lift (py_len official_packages))
                    (\<lambda>n. then_do
                            (logger INFO ''Loaded {len(official_packages)} official packages from config'')
                            (ret official_packages)))))"

definition read_packages_config :: "world \<Rightarrow> yaml comp" where
  "read_packages_config w =
     (if ros_config w = Missing
      then then_do (logger ERROR ''Error: {self.packages_file} not found!'')
             (raise (SystemExit 1))
      else try_except (read_packages_config_body w) is_Exception
             (\<lambda>e. if is_YAMLError e
                   then then_do (logger ERROR ''Error parsing {self.packages_file}: {e}'')
                          (raise (SystemExit 1))
                   else then_do (logger ERROR ''Error reading config file: {e}'')
                          (raise (SystemExit 1))))"

definition rosdep_update_cmd :: "string list" where
  "rosdep_update_cmd = [''bash'', ''-c'', ''source prepare.sh && rosdep update'']"

definition rosdep_install_cmd :: "string list" where
  "rosdep_install_cmd =
     [''bash'', ''-c'', ''source prepare.sh && rosdep install --from-paths src --ignore-src -r -y'']"

definition colcon_build_cmd :: "string list" where
  "colcon_build_cmd = [''bash'', ''-c'', ''source prepare.sh && colcon build --symlink-install'']"

definition build_ws :: "world \<Rightarrow> bool comp" where
  "build_ws w =
     then_do (logger INFO ''Installing workspace dependencies...'')
       (then_do
          (try_except
             (then_do (subprocess_run w rosdep_update_cmd (Some (workspace_dir w)))
                (then_do (subprocess_run w rosdep_install_cmd (Some (workspace_dir w)))
                   (logger INFO ''Dependencies installed successfully'')))
             is_CalledProcessError
             (\<lambda>e. logger WARNING ''Failed to install some dependencies: {e}''))
          (then_do (logger INFO ''Building ROS workspace...'')
             (try_except
                (then_do (subprocess_run w colcon_build_cmd (Some (workspace_dir w)))
                   (then_do (logger INFO ''Workspace built successfully'')
                      (ret True)))
                is_CalledProcessError
                (\<lambda>e. then_do (logger ERROR ''Failed to build workspace: {e}'')
                        (ret False)))))"

definition apt_update_cmd :: "string list" where
  "apt_update_cmd = [''sudo'', ''apt'', ''update'']"

definition apt_install_cmd :: "string list \<Rightarrow> string list" where
  "apt_install_cmd pkgs = [''sudo'', ''apt'', ''install'', ''-y''] @ pkgs"

text \<open>\<open>["sudo", "apt", "install", "-y"] + official_packages\<close> raises \<open>TypeError\<close> unless the
  right operand is a list, and \<open>subprocess.run\<close> raises \<open>TypeError\<close>, before starting
  anything, unless every argument is a string.\<close>

definition apt_install :: "world \<Rightarrow> yaml \<Rightarrow> unit comp" where
  "apt_install w official_packages =
     (case official_packages of
        YList xs \<Rightarrow>
          if list_all is_str xs
          then subprocess_run w (apt_install_cmd (map str_of xs)) None
          else raise TypeError
      | _ \<Rightarrow> raise TypeError)"

definition install_official_packages :: "world \<Rightarrow> yaml \<Rightarrow> bool comp" where
  "install_official_packages w official_packages =
     (if \<not> py_truthy official_packages
      then then_do (logger INFO ''No official packages to install'') (ret True)
      else and_then (lift (py_len official_packages))
             (\<lambda>n. then_do
                (logger INFO ''Installing {len(official_packages)} official packages...'')
                (try_except
                   (then_do (subprocess_run w apt_update_cmd None)
                      (then_do (apt_install w official_packages)
                         (then_do (logger INFO ''Official packages installed successfully'')
                            (ret True))))
                   is_CalledProcessError
                   (\<lambda>e. then_do (logger ERROR ''Failed to install official packages: {e}'')
                           (ret False)))))"

text \<open>\<open>setup_workspace\<close> returns \<open>False\<close> after a failed environment check and falls off
  its end otherwise: the result is \<open>Some False\<close> or \<open>None\<close> (Python's \<open>None\<close>). The
  results of \<open>install_official_packages\<close> and \<open>build_ws\<close> are dropped.\<close>

definition setup_workspace :: "world \<Rightarrow> bool option comp" where
  "setup_workspace w =
     then_do (logger INFO ''Setting up ROS workspace...'')
       (and_then (check_environment w)
          (\<lambda>ok.
             if \<not> ok
             then then_do (logger ERROR ''Environment check failed!'') (ret (Some False))
             else and_then (read_packages_config w)
                    (\<lambda>official_packages.
                       then_do (install_official_packages w official_packages)
                         (then_do (build_ws w)
                            (then_do (logger INFO ''Workspace setup completed successfully!'')
                               (then_do (logger INFO ''Custom packages are managed via git submodules'')
                                  (then_do (logger INFO ''To use the workspace, run: source prepare.sh'')
                                     (ret None))))))))"

definition init_state :: "world \<Rightarrow> state" where
  "init_state w = \<lparr>prepare_mode = prepare_sh w, trace = []\<rparr>"

text \<open>\<open>main\<close>, with the process exit code as its result: 0 when \<open>setup_workspace\<close> returns
  (whatever it returns), the code of a \<open>SystemExit\<close>, 1 after a \<open>KeyboardInterrupt\<close> or
  any \<open>Exception\<close>. The model starts after the command line has been parsed, and a
  keyboard interrupt arrives, if at all, while the script waits for a subprocess.\<close>

definition main :: "world \<Rightarrow> int \<times> state" where
  "main w =
     (case setup_workspace w (init_state w) of
        (Inr r, s) \<Rightarrow> (0, s)
      | (Inl e, s) \<Rightarrow>
          (case e of
             KeyboardInterrupt \<Rightarrow> (1, snd (logger INFO ''Operation cancelled by user'' s))
           | SystemExit c \<Rightarrow> (c, s)
           | _ \<Rightarrow> (1, snd (logger ERROR ''Unexpected error: {e}'' s))))"

subsection \<open>Reading a trace\<close>

fun runs :: "event list \<Rightarrow> string list list" where
  "runs [] = []"
| "runs (Run argv cwd # es) = argv # runs es"
| "runs (e # es) = runs es"

fun logs :: "level \<Rightarrow> event list \<Rightarrow> string list" where
  "logs l [] = []"
| "logs l (Log l' msg # es) = (if l' = l then msg # logs l es else logs l es)"
| "logs l (e # es) = logs l es"

fun opens :: "event list \<Rightarrow> nat" where
  "opens [] = 0"
| "opens (OpenConfig # es) = Suc (opens es)"
| "opens (e # es) = opens es"

definition exit_code :: "world \<Rightarrow> int" where
  "exit_code w = fst (main w)"

definition run_trace :: "world \<Rightarrow> event list" where
  "run_trace w = trace (snd (main w))"

text \<open>The two package-manager commands are those whose argument vector starts with
  \<open>sudo apt\<close>.\<close>

definition is_apt_cmd :: "string list \<Rightarrow> bool" where
  "is_apt_cmd argv = (take 2 argv = [''sudo'', ''apt''])"

subsection \<open>Example workspaces\<close>

text \<open>A workspace with a non-executable prepare.sh (\<open>st_mode = 0o100644 = 33188\<close>), no
  .env, a configuration listing the packages a and b, and subprocesses that all succeed;
  then variations of it.\<close>

definition example_world :: world where
  "example_world =
     \<lparr>args_workspace = None, getcwd = ''/ws'', prepare_sh = Some 33188, env_file = False,
      ros_config = Parsed (YMap [(YStr ''official-packages'', YList [YStr ''a'', YStr ''b''])]),
      run_proc = (\<lambda>argv. Exited 0)\<rparr>"

definition build_fails_world :: world where
  "build_fails_world =
     example_world\<lparr>run_proc := (\<lambda>argv. if argv = colcon_build_cmd then Exited 1 else Exited 0)\<rparr>"

definition sync_fails_world :: world where
  "sync_fails_world =
     example_world\<lparr>run_proc := (\<lambda>argv. if argv = rosdep_update_cmd then Exited 1 else Exited 0)\<rparr>"

definition apt_update_fails_world :: world where
  "apt_update_fails_world =
     example_world\<lparr>run_proc := (\<lambda>argv. if argv = apt_update_cmd then Exited 100 else Exited 0)\<rparr>"

definition bare_world :: world where
  "bare_world = example_world\<lparr>prepare_sh := None, ros_config := Missing\<rparr>"

definition no_config_world :: world where
  "no_config_world = example_world\<lparr>ros_config := Missing\<rparr>"

definition empty_list_world :: world where
  "empty_list_world =
     example_world\<lparr>ros_config := Parsed (YMap [(YStr ''official-packages'', YList [])])\<rparr>"

definition no_key_world :: world where
  "no_key_world =
     example_world\<lparr>ros_config := Parsed (YMap [(YStr ''ros-distro'', YStr ''humble'')])\<rparr>"

text \<open>A configuration as the data model describes it, and as the script accepts it: a
  mapping whose \<open>official-packages\<close> entry, when present, is a list of strings.\<close>

definition valid_config :: "config_file \<Rightarrow> bool" where
  "valid_config f =
     (case f of
        Parsed (YMap cfg) \<Rightarrow>
          (case map_of cfg official_packages_key of
             None \<Rightarrow> True
           | Some (YList xs) \<Rightarrow> list_all is_str xs
           | Some _ \<Rightarrow> False)
      | _ \<Rightarrow> False)"

section \<open>Properties\<close>

subsection \<open>Auxiliary facts\<close>

lemmas comp_defs =
  ret_def raise_def and_then_def then_do_def try_except_def lift_def emit_def logger_def
  subprocess_run_def

lemmas cmd_defs =
  rosdep_update_cmd_def rosdep_install_cmd_def colcon_build_cmd_def apt_update_cmd_def
  apt_install_cmd_def

lemmas prog_defs =
  main_def setup_workspace_def check_environment_def read_packages_config_def
  read_packages_config_body_def build_ws_def install_official_packages_def apt_install_def
  init_state_def workspace_dir_def official_packages_key_def exit_code_def run_trace_def

lemmas world_defs =
  example_world_def build_fails_world_def sync_fails_world_def apt_update_fails_world_def
  bare_world_def no_config_world_def empty_list_world_def no_key_world_def

lemma runs_append [simp]: "runs (xs @ ys) = runs xs @ runs ys"
  by (induction xs rule: runs.induct) simp_all

lemma logs_append [simp]: "logs l (xs @ ys) = logs l xs @ logs l ys"
  by (induction l xs rule: logs.induct) simp_all

lemma opens_append [simp]: "opens (xs @ ys) = opens xs + opens ys"
  by (induction xs rule: opens.induct) simp_all

lemma chmod_permission_bits: "chmod m 493 AND 4095 = 493"
proof -
  have "((m AND NOT k) OR (p AND k)) AND k = p AND k" for k p :: int
    by (rule bit_eqI) (auto simp: bit_simps)
  from this [of 4095 493] show ?thesis by (simp add: chmod_def)
qed

lemma chmod_executable: "chmod m 493 AND 73 = 73"
proof -
  have "chmod m 493 AND 73 = (chmod m 493 AND 4095) AND 73"
    by (simp add: and.assoc)
  then show ?thesis by (simp add: chmod_permission_bits)
qed

lemmas seq_defs = ret_def raise_def and_then_def then_do_def emit_def logger_def

lemma is_apt_cmd_simps [simp]:
  "is_apt_cmd apt_update_cmd" "is_apt_cmd (apt_install_cmd pkgs)"
  "\<not> is_apt_cmd rosdep_update_cmd" "\<not> is_apt_cmd rosdep_install_cmd"
  "\<not> is_apt_cmd colcon_build_cmd"
  by (simp_all add: is_apt_cmd_def cmd_defs)

lemma main_runs: "runs (run_trace w) = runs (trace (snd (setup_workspace w (init_state w))))"
  by (simp add: run_trace_def main_def seq_defs split: prod.splits sum.splits exn.splits)

lemma check_environment_result:
  assumes "prepare_mode s = Some m"
  shows "fst (check_environment w s) = Inr True"
    and "runs (trace (snd (check_environment w s))) = runs (trace s)"
  using assms by (simp_all add: check_environment_def seq_defs)

lemma read_packages_config_list:
  assumes "ros_config w = Parsed (YMap cfg)"
    and "map_of cfg official_packages_key = Some (YList xs)"
  shows "read_packages_config w s =
           (Inr (YList xs),
            s\<lparr>trace := trace s @
              [OpenConfig,
               Log INFO ''Loaded {len(official_packages)} official packages from config'']\<rparr>)"
  using assms
  by (simp add: read_packages_config_def read_packages_config_body_def seq_defs lift_def
      try_except_def)

lemma read_packages_config_no_key:
  assumes "ros_config w = Parsed (YMap cfg)"
    and "map_of cfg official_packages_key = None"
  shows "read_packages_config w s =
           (Inr (YList []),
            s\<lparr>trace := trace s @
              [OpenConfig,
               Log INFO ''Loaded {len(official_packages)} official packages from config'']\<rparr>)"
  using assms
  by (simp add: read_packages_config_def read_packages_config_body_def seq_defs lift_def
      try_except_def)

lemma build_ws_runs:
  "runs (trace (snd (build_ws w s))) = runs (trace s) @
     (case run_proc w rosdep_update_cmd of
        Exited c \<Rightarrow>
          if c = 0
          then (case run_proc w rosdep_install_cmd of
                  Exited c' \<Rightarrow> [rosdep_update_cmd, rosdep_install_cmd, colcon_build_cmd]
                | _ \<Rightarrow> [rosdep_update_cmd, rosdep_install_cmd])
          else [rosdep_update_cmd, colcon_build_cmd]
      | _ \<Rightarrow> [rosdep_update_cmd])"
  by (simp add: build_ws_def comp_defs split: proc_result.splits)

lemma build_ws_apt: "filter is_apt_cmd (runs (trace (snd (build_ws w s)))) = filter is_apt_cmd (runs (trace s))"
  by (simp add: build_ws_runs split: proc_result.splits)

lemma install_empty:
  "install_official_packages w (YList []) s =
     (Inr True, s\<lparr>trace := trace s @ [Log INFO ''No official packages to install'']\<rparr>)"
  by (simp add: install_official_packages_def seq_defs)

text \<open>The subprocesses of a run whose environment check passes and whose configuration
  read returns \<open>v\<close>: those of the installer, then, if it returns, those of the build.\<close>

lemma setup_workspace_runs:
  assumes "prepare_sh w = Some m"
    and "\<And>s. read_packages_config w s = (Inr v, s\<lparr>trace := trace s @ [OpenConfig, Log INFO ''Loaded {len(official_packages)} official packages from config'']\<rparr>)"
  shows "\<exists>s. runs (trace s) = [] \<and>
          runs (trace (snd (setup_workspace w (init_state w)))) =
           (case install_official_packages w v s of
              (Inl e, s') \<Rightarrow> runs (trace s')
            | (Inr b, s') \<Rightarrow> runs (trace (snd (build_ws w s'))))"
proof -
  define s0 where "s0 = (init_state w)\<lparr>trace := trace (init_state w) @ [Log INFO ''Setting up ROS workspace...'']\<rparr>"
  define s1 where "s1 = snd (check_environment w s0)"
  define s2 where "s2 = s1\<lparr>trace := trace s1 @ [OpenConfig, Log INFO ''Loaded {len(official_packages)} official packages from config'']\<rparr>"
  have pm: "prepare_mode s0 = Some m"
    using assms(1) by (simp add: s0_def init_state_def)
  have ce: "check_environment w s0 = (Inr True, s1)"
    using check_environment_result(1) [OF pm, of w] by (simp add: s1_def prod_eq_iff)
  have r1: "runs (trace s1) = []"
    using check_environment_result(2) [OF pm, of w] by (simp add: s1_def s0_def init_state_def)
  have r2: "runs (trace s2) = []"
    using r1 by (simp add: s2_def)
  have rd: "read_packages_config w s1 = (Inr v, s2)"
    using assms(2) [of s1] by (simp add: s2_def)
  have "runs (trace (snd (setup_workspace w (init_state w)))) =
           (case install_official_packages w v s2 of
              (Inl e, s') \<Rightarrow> runs (trace s')
            | (Inr b, s') \<Rightarrow> runs (trace (snd (build_ws w s'))))"
    using ce rd
    by (simp add: setup_workspace_def seq_defs s0_def [symmetric] split: prod.splits sum.splits)
  with r2 show ?thesis by blast
qed

lemma install_runs_two:
  assumes "run_proc w apt_update_cmd = Exited 0"
  shows "runs (trace (snd (install_official_packages w (YList [YStr a, YStr b]) s))) =
           runs (trace s) @ [apt_update_cmd, apt_install_cmd [a, b]]"
  using assms
  by (simp add: install_official_packages_def apt_install_def comp_defs split: proc_result.splits)

lemma build_ws_runs_state:
  "runs (trace (snd (build_ws w s))) = runs (trace s) @ runs (trace (snd (build_ws w (init_state w))))"
  by (simp add: build_ws_runs init_state_def)

lemma build_ws_first: "take 1 (runs (trace (snd (build_ws w (init_state w))))) = [rosdep_update_cmd]"
  by (simp add: build_ws_runs init_state_def split: proc_result.splits)

lemma setup_workspace_runs_empty:
  assumes "prepare_sh w = Some m"
    and "\<And>s. read_packages_config w s = (Inr (YList []), s\<lparr>trace := trace s @ [OpenConfig, Log INFO ''Loaded {len(official_packages)} official packages from config'']\<rparr>)"
  shows "runs (run_trace w) = runs (trace (snd (build_ws w (init_state w))))"
proof -
  obtain s where s: "runs (trace s) = []"
    and run: "runs (trace (snd (setup_workspace w (init_state w)))) =
           (case install_official_packages w (YList []) s of
              (Inl e, s') \<Rightarrow> runs (trace s')
            | (Inr b, s') \<Rightarrow> runs (trace (snd (build_ws w s'))))"
    using setup_workspace_runs [OF assms(1), of "YList []"] assms(2) by blast
  show ?thesis
    using run s by (simp add: main_runs install_empty build_ws_runs_state [of w "s\<lparr>trace := t\<rparr>" for t])
qed

lemma install_returns:
  assumes "list_all is_str xs"
    and "run_proc w apt_update_cmd = Exited c1"
    and "run_proc w (apt_install_cmd (map str_of xs)) = Exited c2"
  shows "\<exists>b s'. install_official_packages w (YList xs) s = (Inr b, s') \<and>
           filter (\<lambda>a. \<not> is_apt_cmd a) (runs (trace s')) =
           filter (\<lambda>a. \<not> is_apt_cmd a) (runs (trace s))"
  using assms
  by (auto simp add: install_official_packages_def apt_install_def comp_defs)

lemma valid_config_read:
  assumes "valid_config (ros_config w)"
  shows "\<exists>xs. list_all is_str xs \<and>
           (\<forall>s. read_packages_config w s =
              (Inr (YList xs),
               s\<lparr>trace := trace s @
                 [OpenConfig,
                  Log INFO ''Loaded {len(official_packages)} official packages from config'']\<rparr>))"
proof -
  from assms obtain cfg where cfg: "ros_config w = Parsed (YMap cfg)"
    by (auto simp: valid_config_def split: config_file.splits yaml.splits)
  show ?thesis
  proof (cases "map_of cfg official_packages_key")
    case None
    then show ?thesis
      using read_packages_config_no_key [OF cfg None] by (intro exI [of _ "[]"]) simp
  next
    case (Some v)
    with assms cfg obtain xs where v: "v = YList xs" and str: "list_all is_str xs"
      by (auto simp: valid_config_def split: yaml.splits)
    show ?thesis
      using read_packages_config_list [OF cfg Some [unfolded v]] str
      by (intro exI [of _ xs]) simp
  qed
qed

subsection \<open>The exit code after a failed build\<close>

text \<open>
  Claim C1 says that a run whose build command fails exits with code 1. In
  \<open>build_fails_world\<close> every check passes and every subprocess succeeds except the build
  command, which exits with status 1. The build command is invoked there, and the exit
  code of the run is 0: \<open>build_ws\<close> returns \<open>False\<close>, \<open>setup_workspace\<close> drops it, and
  \<open>main\<close> ends normally.
\<close>

theorem build_failure_exit_code:
  "run_proc build_fails_world colcon_build_cmd = Exited 1 \<and>
   colcon_build_cmd \<in> set (runs (run_trace build_fails_world)) \<and>
   exit_code build_fails_world = 0"
  by (simp add: world_defs prog_defs comp_defs cmd_defs)

subsection \<open>The result of \<open>setup_workspace\<close> after a failed build\<close>

text \<open>
  Claim C2 says that after a build command with a nonzero exit status the run logs an
  error and \<open>setup_workspace\<close> reports failure as its result. In \<open>build_fails_world\<close>
  the error is logged, but \<open>setup_workspace\<close> returns \<open>None\<close>, as it does after a
  successful build, and its last log lines are those of a completed setup.
\<close>

theorem build_failure_setup_result:
  "fst (setup_workspace build_fails_world (init_state build_fails_world)) = Inr None \<and>
   logs ERROR (run_trace build_fails_world) = [''Failed to build workspace: {e}''] \<and>
   ''Workspace setup completed successfully!'' \<in> set (logs INFO (run_trace build_fails_world))"
  by (simp add: world_defs prog_defs comp_defs cmd_defs)

subsection \<open>A missing or malformed configuration\<close>

text \<open>
  Where prepare.sh exists, a missing or unparsable ros-config.yml ends the run in
  \<open>read_packages_config\<close>: the exit code is 1, exactly one error is logged (naming the
  missing file, or the parse error), and no subprocess is invoked.
\<close>

lemma config_missing_exit_code:
  assumes "prepare_sh w = Some m"
    and "ros_config w = Missing \<or> ros_config w = Malformed"
  shows "exit_code w = 1 \<and> runs (run_trace w) = [] \<and>
         logs ERROR (run_trace w) =
           [if ros_config w = Missing then ''Error: {self.packages_file} not found!''
            else ''Error parsing {self.packages_file}: {e}'']"
  using assms by (auto simp add: prog_defs comp_defs)

lemma config_missing_exit_code_example:
  "prepare_sh no_config_world = Some 33188 \<and> ros_config no_config_world = Missing \<and>
   exit_code no_config_world = 1 \<and> runs (run_trace no_config_world) = [] \<and>
   logs ERROR (run_trace no_config_world) = [''Error: {self.packages_file} not found!'']"
  using config_missing_exit_code [of no_config_world 33188] by (simp add: world_defs)

text \<open>
  Claim C4 says that every workspace whose ros-config.yml is missing or unparsable ends
  with exit code 1, after an error log and before any subprocess. In \<open>bare_world\<close>
  ros-config.yml and prepare.sh are both missing. The run logs two errors and invokes no
  subprocess, and \<open>setup_workspace\<close> returns \<open>False\<close>; but \<open>main\<close> drops that result
  and the exit code is 0, not 1.
\<close>

theorem config_missing_without_prepare:
  "prepare_sh bare_world = None \<and> ros_config bare_world = Missing \<and>
   fst (setup_workspace bare_world (init_state bare_world)) = Inr (Some False) \<and>
   logs ERROR (run_trace bare_world) =
     [''prepare.sh not found! This script is required for environment setup.'',
      ''Environment check failed!''] \<and>
   runs (run_trace bare_world) = [] \<and>
   exit_code bare_world = 0"
  by (simp add: world_defs prog_defs comp_defs)

subsection \<open>A missing prepare.sh\<close>

text \<open>
  Claim C7: when prepare.sh is missing, the run logs an error and stops before anything
  else happens. The whole trace of the run is three log lines, two of them errors; no
  subprocess is invoked, ros-config.yml is not opened, and \<open>setup_workspace\<close> returns
  \<open>False\<close>.
\<close>

theorem prepare_missing_aborts:
  assumes "prepare_sh w = None"
  shows "run_trace w =
           [Log INFO ''Setting up ROS workspace...'',
            Log ERROR ''prepare.sh not found! This script is required for environment setup.'',
            Log ERROR ''Environment check failed!''] \<and>
         runs (run_trace w) = [] \<and> opens (run_trace w) = 0 \<and>
         fst (setup_workspace w (init_state w)) = Inr (Some False)"
  using assms by (simp add: prog_defs comp_defs)

theorem prepare_missing_aborts_witness:
  "prepare_sh bare_world = None \<and> runs (run_trace bare_world) = [] \<and>
   opens (run_trace bare_world) = 0 \<and>
   logs ERROR (run_trace bare_world) =
     [''prepare.sh not found! This script is required for environment setup.'',
      ''Environment check failed!''] \<and>
   fst (setup_workspace bare_world (init_state bare_world)) = Inr (Some False)"
  using prepare_missing_aborts [of bare_world] by (simp add: world_defs)

subsection \<open>The environment check\<close>

text \<open>
  Claim C8: when prepare.sh exists, \<open>check_environment\<close> succeeds. If no execute bit of
  the file is set (\<open>st_mode & 0o111 = 0\<close>), its mode becomes \<open>chmod m 0o755\<close>, whose
  permission bits are exactly \<open>0o755\<close> and whose execute bits are all set; if some execute
  bit is set, the mode stays as it is. A missing .env adds one warning and nothing else:
  no error is logged and the result is the same.
\<close>

theorem check_environment_prepare_exists:
  assumes "prepare_mode s = Some m"
  shows "fst (check_environment w s) = Inr True \<and>
         prepare_mode (snd (check_environment w s)) =
           Some (if m AND 73 = 0 then chmod m 493 else m) \<and>
         chmod m 493 AND 4095 = 493 \<and> chmod m 493 AND 73 = 73 \<and>
         logs WARNING (trace (snd (check_environment w s))) =
           logs WARNING (trace s) @ (if env_file w then [] else [''.env file not found!'']) \<and>
         logs ERROR (trace (snd (check_environment w s))) = logs ERROR (trace s)"
  using assms
  by (simp add: check_environment_def comp_defs chmod_permission_bits chmod_executable)

theorem check_environment_prepare_exists_witness:
  "prepare_mode \<lparr>prepare_mode = Some 33188, trace = []\<rparr> = Some 33188 \<and>
   fst (check_environment example_world \<lparr>prepare_mode = Some 33188, trace = []\<rparr>) = Inr True \<and>
   prepare_mode (snd (check_environment example_world \<lparr>prepare_mode = Some 33188, trace = []\<rparr>)) =
     Some 33261 \<and>
   logs WARNING (trace (snd (check_environment example_world \<lparr>prepare_mode = Some 33188, trace = []\<rparr>))) =
     [''.env file not found!''] \<and>
   logs ERROR (trace (snd (check_environment example_world \<lparr>prepare_mode = Some 33188, trace = []\<rparr>))) = [] \<and>
   prepare_mode (snd (check_environment example_world \<lparr>prepare_mode = Some 33261, trace = []\<rparr>)) =
     Some 33261"
  using check_environment_prepare_exists
          [of "\<lparr>prepare_mode = Some 33188, trace = []\<rparr>" 33188 example_world]
        check_environment_prepare_exists
          [of "\<lparr>prepare_mode = Some 33261, trace = []\<rparr>" 33261 example_world]
  by (simp add: world_defs chmod_def)

subsection \<open>A failed package-list update\<close>

text \<open>
  Claim C10: for a non-empty package list, if \<open>sudo apt update\<close> exits with a nonzero
  status, \<open>install_official_packages\<close> returns \<open>False\<close> and the update is the only
  subprocess it has invoked: the install command is not attempted.
\<close>

theorem apt_update_failure_skips_install:
  assumes "xs \<noteq> []"
    and "run_proc w apt_update_cmd = Exited c"
    and "c \<noteq> 0"
  shows "fst (install_official_packages w (YList xs) s) = Inr False \<and>
         runs (trace (snd (install_official_packages w (YList xs) s))) =
           runs (trace s) @ [apt_update_cmd]"
  using assms by (simp add: install_official_packages_def comp_defs)

theorem apt_update_failure_skips_install_witness:
  "[YStr ''a'', YStr ''b''] \<noteq> [] \<and>
   run_proc apt_update_fails_world apt_update_cmd = Exited 100 \<and> (100::int) \<noteq> 0 \<and>
   fst (install_official_packages apt_update_fails_world (YList [YStr ''a'', YStr ''b''])
          \<lparr>prepare_mode = Some 33261, trace = []\<rparr>) = Inr False \<and>
   runs (trace (snd (install_official_packages apt_update_fails_world
          (YList [YStr ''a'', YStr ''b'']) \<lparr>prepare_mode = Some 33261, trace = []\<rparr>))) =
     [apt_update_cmd]"
  using apt_update_failure_skips_install
          [of "[YStr ''a'', YStr ''b'']" apt_update_fails_world 100
              "\<lparr>prepare_mode = Some 33261, trace = []\<rparr>"]
  by (simp add: world_defs)

subsection \<open>Failures of the dependency steps\<close>

text \<open>
  Claim C3 says that after a failed dependency sync (\<open>rosdep update\<close>) the dependency
  install command is still invoked. Counterexample: in \<open>sync_fails_world\<close> the sync
  command exits with status 1 and the install command is never invoked; both calls sit in
  one \<open>try\<close> block.
\<close>

theorem sync_failure_skips_dependency_install:
  "run_proc sync_fails_world rosdep_update_cmd = Exited 1 \<and>
   rosdep_install_cmd \<notin> set (runs (run_trace sync_fails_world))"
  by (simp add: world_defs prog_defs comp_defs cmd_defs)

text \<open>
  Claim C3 as amended: when the environment check passes, the configuration is valid and
  every subprocess exits (with any status, zero or not), nonzero exits of the package
  manager and of the dependency commands do not abort the run: the dependency sync and
  the build command are always invoked, in this order. The dependency install command is
  invoked between them exactly when the dependency sync exited with status 0.
\<close>

theorem dependency_failures_do_not_abort:
  assumes "prepare_sh w = Some m"
    and "valid_config (ros_config w)"
    and "\<forall>argv. \<exists>c. run_proc w argv = Exited c"
  shows "filter (\<lambda>a. \<not> is_apt_cmd a) (runs (run_trace w)) =
           rosdep_update_cmd #
           (if run_proc w rosdep_update_cmd = Exited 0 then [rosdep_install_cmd] else []) @
           [colcon_build_cmd]"
proof -
  obtain xs where str: "list_all is_str xs"
    and rd: "\<And>s. read_packages_config w s =
              (Inr (YList xs),
               s\<lparr>trace := trace s @
                 [OpenConfig,
                  Log INFO ''Loaded {len(official_packages)} official packages from config'']\<rparr>)"
    using valid_config_read [OF assms(2)] by blast
  obtain s where s: "runs (trace s) = []"
    and run: "runs (trace (snd (setup_workspace w (init_state w)))) =
           (case install_official_packages w (YList xs) s of
              (Inl e, s') \<Rightarrow> runs (trace s')
            | (Inr b, s') \<Rightarrow> runs (trace (snd (build_ws w s'))))"
    using setup_workspace_runs [OF assms(1), of "YList xs"] rd by blast
  obtain c1 c2 c3 c4 where c:
    "run_proc w apt_update_cmd = Exited c1"
    "run_proc w (apt_install_cmd (map str_of xs)) = Exited c2"
    "run_proc w rosdep_update_cmd = Exited c3"
    "run_proc w rosdep_install_cmd = Exited c4"
    using assms(3) by metis
  obtain b s' where i: "install_official_packages w (YList xs) s = (Inr b, s')"
    and s': "filter (\<lambda>a. \<not> is_apt_cmd a) (runs (trace s')) = []"
    using install_returns [OF str c(1,2), of s] s by auto
  have "runs (run_trace w) = runs (trace (snd (build_ws w s')))"
    using run i by (simp add: main_runs)
  then show ?thesis
    using s' c(3,4) by (simp add: build_ws_runs)
qed

theorem dependency_failures_do_not_abort_witness:
  "prepare_sh sync_fails_world = Some 33188 \<and> valid_config (ros_config sync_fails_world) \<and>
   (\<forall>argv. \<exists>c. run_proc sync_fails_world argv = Exited c) \<and>
   filter (\<lambda>a. \<not> is_apt_cmd a) (runs (run_trace sync_fails_world)) =
     [rosdep_update_cmd, colcon_build_cmd]"
  using dependency_failures_do_not_abort [of sync_fails_world 33188]
  by (simp add: world_defs valid_config_def official_packages_key_def)

subsection \<open>Installing the packages a and b\<close>

text \<open>
  Claim C5 says that for every valid configuration listing a and b the install command
  is invoked exactly once. Counterexample: in \<open>apt_update_fails_world\<close> the update
  command exits with status 100 and the install command is not invoked at all.
\<close>

theorem update_failure_no_install:
  "prepare_sh apt_update_fails_world = Some 33188 \<and>
   ros_config apt_update_fails_world =
     Parsed (YMap [(official_packages_key, YList [YStr ''a'', YStr ''b''])]) \<and>
   count_list (runs (run_trace apt_update_fails_world)) (apt_install_cmd [''a'', ''b'']) = 0"
  by (simp add: world_defs prog_defs comp_defs cmd_defs)

text \<open>
  Claim C5 as amended: when the environment check passes, the configuration lists the
  packages a and b, and the update invocation exits with status 0, the package-manager
  invocations of the run are exactly two: one update, then one install with both names.
\<close>

theorem packages_installed_once_after_update:
  assumes "prepare_sh w = Some m"
    and "ros_config w = Parsed (YMap cfg)"
    and "map_of cfg official_packages_key = Some (YList [YStr ''a'', YStr ''b''])"
    and "run_proc w apt_update_cmd = Exited 0"
  shows "filter is_apt_cmd (runs (run_trace w)) = [apt_update_cmd, apt_install_cmd [''a'', ''b'']]"
proof -
  obtain s where s: "runs (trace s) = []"
    and run: "runs (trace (snd (setup_workspace w (init_state w)))) =
           (case install_official_packages w (YList [YStr ''a'', YStr ''b'']) s of
              (Inl e, s') \<Rightarrow> runs (trace s')
            | (Inr b, s') \<Rightarrow> runs (trace (snd (build_ws w s'))))"
    using setup_workspace_runs [OF assms(1), of "YList [YStr ''a'', YStr ''b'']"]
      read_packages_config_list [OF assms(2,3)] by blast
  obtain r s' where i: "install_official_packages w (YList [YStr ''a'', YStr ''b'']) s = (r, s')"
    by (cases "install_official_packages w (YList [YStr ''a'', YStr ''b'']) s")
  have s': "runs (trace s') = [apt_update_cmd, apt_install_cmd [''a'', ''b'']]"
    using install_runs_two [OF assms(4), of "''a''" "''b''" s] s i by simp
  show ?thesis
    using run i s' by (cases r) (simp_all add: main_runs build_ws_apt)
qed

theorem packages_installed_once_after_update_witness:
  "prepare_sh example_world = Some 33188 \<and>
   ros_config example_world =
     Parsed (YMap [(YStr ''official-packages'', YList [YStr ''a'', YStr ''b''])]) \<and>
   map_of [(YStr ''official-packages'', YList [YStr ''a'', YStr ''b''])] official_packages_key =
     Some (YList [YStr ''a'', YStr ''b'']) \<and>
   run_proc example_world apt_update_cmd = Exited 0 \<and>
   filter is_apt_cmd (runs (run_trace example_world)) =
     [apt_update_cmd, apt_install_cmd [''a'', ''b'']]"
  using packages_installed_once_after_update [of example_world 33188 "[(YStr ''official-packages'', YList [YStr ''a'', YStr ''b''])]"]
  by (simp add: world_defs official_packages_key_def)

subsection \<open>An empty package list\<close>

text \<open>
  Claim C6: for a configuration whose package list is empty, the installer step returns
  \<open>True\<close> without invoking any subprocess; in a run that reaches it (prepare.sh exists)
  no package-manager command is invoked, and the subprocesses of the run are exactly
  those of the build step \<open>build_ws\<close>, the first of which is the dependency sync.
\<close>

theorem empty_packages_skip_installer:
  assumes "prepare_sh w = Some m"
    and "ros_config w = Parsed (YMap cfg)"
    and "map_of cfg official_packages_key = Some (YList [])"
  shows "fst (install_official_packages w (YList []) s) = Inr True \<and>
         runs (trace (snd (install_official_packages w (YList []) s))) = runs (trace s) \<and>
         filter is_apt_cmd (runs (run_trace w)) = [] \<and>
         runs (run_trace w) = runs (trace (snd (build_ws w (init_state w)))) \<and>
         take 1 (runs (run_trace w)) = [rosdep_update_cmd]"
proof -
  have run: "runs (run_trace w) = runs (trace (snd (build_ws w (init_state w))))"
    using setup_workspace_runs_empty [OF assms(1)] read_packages_config_list [OF assms(2,3)]
    by blast
  have apt: "filter is_apt_cmd (runs (run_trace w)) = []"
    by (simp add: run build_ws_apt init_state_def)
  have first: "take 1 (runs (run_trace w)) = [rosdep_update_cmd]"
    unfolding run by (rule build_ws_first)
  show ?thesis
    using run apt first by (simp add: install_empty)
qed

theorem empty_packages_skip_installer_witness:
  "prepare_sh empty_list_world = Some 33188 \<and>
   ros_config empty_list_world = Parsed (YMap [(YStr ''official-packages'', YList [])]) \<and>
   map_of [(YStr ''official-packages'', YList [])] official_packages_key = Some (YList []) \<and>
   filter is_apt_cmd (runs (run_trace empty_list_world)) = [] \<and>
   take 1 (runs (run_trace empty_list_world)) = [rosdep_update_cmd]"
proof -
  have h: "prepare_sh empty_list_world = Some 33188"
    "ros_config empty_list_world = Parsed (YMap [(YStr ''official-packages'', YList [])])"
    "map_of [(YStr ''official-packages'', YList [])] official_packages_key = Some (YList [])"
    by (simp_all add: world_defs official_packages_key_def)
  from h empty_packages_skip_installer [OF h, of "init_state empty_list_world"]
  show ?thesis by blast
qed

subsection \<open>A configuration without the \<open>official-packages\<close> key\<close>

text \<open>
  Claim C9: when ros-config.yml parses to a mapping without the \<open>official-packages\<close>
  key, \<open>read_packages_config\<close> returns the empty list and logs no error; in a run that
  reaches it (prepare.sh exists) no package-manager command is invoked, and the
  subprocesses of the run are exactly those of the build step \<open>build_ws\<close>, the first of
  which is the dependency sync.
\<close>

theorem missing_key_not_fatal:
  assumes "prepare_sh w = Some m"
    and "ros_config w = Parsed (YMap cfg)"
    and "map_of cfg official_packages_key = None"
  shows "fst (read_packages_config w s) = Inr (YList []) \<and>
         logs ERROR (trace (snd (read_packages_config w s))) = logs ERROR (trace s) \<and>
         filter is_apt_cmd (runs (run_trace w)) = [] \<and>
         runs (run_trace w) = runs (trace (snd (build_ws w (init_state w)))) \<and>
         take 1 (runs (run_trace w)) = [rosdep_update_cmd]"
proof -
  have run: "runs (run_trace w) = runs (trace (snd (build_ws w (init_state w))))"
    using setup_workspace_runs_empty [OF assms(1)] read_packages_config_no_key [OF assms(2,3)]
    by blast
  have apt: "filter is_apt_cmd (runs (run_trace w)) = []"
    by (simp add: run build_ws_apt init_state_def)
  have first: "take 1 (runs (run_trace w)) = [rosdep_update_cmd]"
    unfolding run by (rule build_ws_first)
  show ?thesis
    using run apt first by (simp add: read_packages_config_no_key [OF assms(2,3)])
qed

theorem missing_key_not_fatal_witness:
  "prepare_sh no_key_world = Some 33188 \<and>
   ros_config no_key_world = Parsed (YMap [(YStr ''ros-distro'', YStr ''humble'')]) \<and>
   map_of [(YStr ''ros-distro'', YStr ''humble'')] official_packages_key = None \<and>
   fst (read_packages_config no_key_world (init_state no_key_world)) = Inr (YList []) \<and>
   filter is_apt_cmd (runs (run_trace no_key_world)) = [] \<and>
   take 1 (runs (run_trace no_key_world)) = [rosdep_update_cmd]"
proof -
  have h: "prepare_sh no_key_world = Some 33188"
    "ros_config no_key_world = Parsed (YMap [(YStr ''ros-distro'', YStr ''humble'')])"
    "map_of [(YStr ''ros-distro'', YStr ''humble'')] official_packages_key = None"
    by (simp_all add: world_defs official_packages_key_def)
  from h missing_key_not_fatal [OF h, of "init_state no_key_world"]
  show ?thesis by blast
qed

end
